theory Spec2Isabelle
  imports Main
begin

section \<open>Exceptions and values of the adapter base classes\<close>

text \<open>
  The classes of the exceptions that the two adapter base modules
  (\<^verbatim>\<open>input_adapters/base.py\<close>, \<^verbatim>\<open>input_adapters/base_fixed.py\<close>) raise or
  catch. The handlers of the source test two class memberships only:
  \<^verbatim>\<open>except RuntimeError\<close> and \<^verbatim>\<open>except Exception\<close>.
  \<^item> \<open>RuntimeErrorSubclass n\<close> is a class \<open>n\<close> deriving from RuntimeError
    (NotImplementedError, RecursionError);
  \<^item> \<open>OtherException n\<close> is any other class deriving from Exception;
  \<^item> \<open>BaseExceptionOnly n\<close> derives from BaseException and not from Exception
    (KeyboardInterrupt, SystemExit, GeneratorExit, asyncio.CancelledError).
\<close>

datatype exc_class =
    ValueError
  | TypeError
  | FileNotFoundError
  | RuntimeError
  | RuntimeErrorSubclass string
  | OtherException string
  | BaseExceptionOnly string

text \<open>An exception object: its class and \<^verbatim>\<open>str(e)\<close>.\<close>

datatype exc = Exc (exc_cls: exc_class) (exc_text: string)

fun isinstance_RuntimeError :: "exc \<Rightarrow> bool" where
  "isinstance_RuntimeError (Exc RuntimeError _) = True"
| "isinstance_RuntimeError (Exc (RuntimeErrorSubclass _) _) = True"
| "isinstance_RuntimeError _ = False"

fun isinstance_Exception :: "exc \<Rightarrow> bool" where
  "isinstance_Exception (Exc (BaseExceptionOnly _) _) = False"
| "isinstance_Exception _ = True"

text \<open>
  \<^verbatim>\<open>InputAdapterResult\<close> (the dataclass of base.py; base_fixed.py imports a class
  of the same name and builds it with the same keywords). \<^verbatim>\<open>__post_init__\<close>
  replaces a missing metadata by the empty dict, so the field is always a dict.
  The type \<open>'vs\<close> stands for \<^verbatim>\<open>VideoSet\<close>.
\<close>

record 'vs InputAdapterResult =
  success :: bool
  video_set :: "'vs option"
  error :: "string option"
  metadata :: "(string \<times> string) list"

text \<open>
  What \<^verbatim>\<open>adapt\<close> may hand back to \<^verbatim>\<open>parse\<close>: the three branches of the
  \<^verbatim>\<open>isinstance\<close> chain. \<open>OtherValue t\<close> is an object of any other type, \<open>t\<close> the
  text of \<^verbatim>\<open>type(result)\<close>.
\<close>

datatype 'vs py_value =
    AdapterResult "'vs InputAdapterResult"
  | VideoSetValue 'vs
  | OtherValue string

text \<open>\<^verbatim>\<open>f"{x}"\<close> of an optional string: None prints as \<^verbatim>\<open>None\<close>.\<close>

fun format_optional :: "string option \<Rightarrow> string" where
  "format_optional None = ''None''"
| "format_optional (Some s) = s"

section \<open>The synchronous wrapper: extracting the VideoSet\<close>

text \<open>
  Lines 82-91 of base.py and 68-77 of base_fixed.py (the same text):
  \<^verbatim>\<open>
  if isinstance(result, InputAdapterResult):
      if result.success and result.video_set:
          return result.video_set
      else:
          raise ValueError(f"Adapter failed: {result.error}")
  elif isinstance(result, VideoSet):
      return result
  else:
      raise TypeError(f"Unexpected result type: {type(result)}")
  \<close>
  \<^verbatim>\<open>result.video_set\<close> is tested for truth, not against None. The class VideoSet
  (shared/models.py) is not among the sources, so the truth value of its instances
  (\<^verbatim>\<open>__bool__\<close> or \<^verbatim>\<open>__len__\<close>, when a class defines one) is the parameter
  \<open>truthy\<close>.
\<close>

definition extract_video_set :: "('vs \<Rightarrow> bool) \<Rightarrow> 'vs py_value \<Rightarrow> exc + 'vs" where
  "extract_video_set truthy result =
     (case result of
        AdapterResult r \<Rightarrow>
          (case video_set r of
             Some v \<Rightarrow>
               if success r \<and> truthy v then Inr v
               else Inl (Exc ValueError (''Adapter failed: '' @ format_optional (error r)))
           | None \<Rightarrow> Inl (Exc ValueError (''Adapter failed: '' @ format_optional (error r))))
      | VideoSetValue v \<Rightarrow> Inr v
      | OtherValue t \<Rightarrow> Inl (Exc TypeError (''Unexpected result type: '' @ t)))"

text \<open>
  What asyncio raises when the retry of the \<^verbatim>\<open>except RuntimeError\<close> branch runs on
  a thread whose event loop is running: \<^verbatim>\<open>asyncio.run\<close> (base.py) and
  \<^verbatim>\<open>loop.run_until_complete\<close> (base_fixed.py) both refuse to start.
\<close>

definition asyncio_run_refused :: exc where
  "asyncio_run_refused =
     Exc RuntimeError ''asyncio.run() cannot be called from a running event loop''"

definition run_until_complete_refused :: exc where
  "run_until_complete_refused =
     Exc RuntimeError ''Cannot run the event loop while another loop is running''"

text \<open>
  \<^verbatim>\<open>InputAdapter.parse\<close> (base.py). \<open>loop_running\<close> says whether
  \<^verbatim>\<open>asyncio.get_running_loop()\<close> succeeds on the calling thread; \<open>outcome\<close> is
  what running the coroutine \<^verbatim>\<open>self.adapt(source, **kwargs)\<close> to completion gives,
  an exception or a value.
  \<^item> No loop: \<^verbatim>\<open>get_running_loop\<close> raises RuntimeError, the handler runs
    \<^verbatim>\<open>asyncio.run(self.adapt(...))\<close>; an exception of adapt leaves the handler.
  \<^item> A loop is running: the coroutine runs in the executor's thread and
    \<^verbatim>\<open>future.result()\<close> returns its value or raises its exception inside the
    \<^verbatim>\<open>try\<close>; a RuntimeError is therefore caught by the same handler, whose
    \<^verbatim>\<open>asyncio.run\<close> is refused on this thread.
  The result is then handled outside the \<^verbatim>\<open>try\<close>.
\<close>

definition InputAdapter_parse ::
  "('vs \<Rightarrow> bool) \<Rightarrow> bool \<Rightarrow> exc + 'vs py_value \<Rightarrow> exc + 'vs" where
  "InputAdapter_parse truthy loop_running outcome =
     (case (if loop_running then
              (case outcome of
                 Inl e \<Rightarrow> if isinstance_RuntimeError e then Inl asyncio_run_refused else Inl e
               | Inr result \<Rightarrow> Inr result)
            else outcome) of
        Inl e \<Rightarrow> Inl e
      | Inr result \<Rightarrow> extract_video_set truthy result)"

text \<open>
  \<^verbatim>\<open>BaseAdapter._run_async_in_new_loop\<close> (base_fixed.py): run adapt on a new
  loop, extract the VideoSet; the \<^verbatim>\<open>finally\<close> closes the loop and changes no
  result.
\<close>

definition run_async_in_new_loop ::
  "('vs \<Rightarrow> bool) \<Rightarrow> exc + 'vs py_value \<Rightarrow> exc + 'vs" where
  "run_async_in_new_loop truthy outcome =
     (case outcome of
        Inl e \<Rightarrow> Inl e
      | Inr result \<Rightarrow> extract_video_set truthy result)"

text \<open>
  \<^verbatim>\<open>BaseAdapter.parse\<close> (base_fixed.py). With a loop running, the worker thread
  runs \<^verbatim>\<open>_run_async_in_new_loop\<close> and \<^verbatim>\<open>return future.result()\<close> sits inside
  the \<^verbatim>\<open>try\<close>: a RuntimeError of the worker is caught, and the second
  \<^verbatim>\<open>_run_async_in_new_loop\<close>, now on the calling thread, is refused by
  \<^verbatim>\<open>run_until_complete\<close>.
\<close>

definition BaseAdapter_parse ::
  "('vs \<Rightarrow> bool) \<Rightarrow> bool \<Rightarrow> exc + 'vs py_value \<Rightarrow> exc + 'vs" where
  "BaseAdapter_parse truthy loop_running outcome =
     (if loop_running then
        (case run_async_in_new_loop truthy outcome of
           Inl e \<Rightarrow> if isinstance_RuntimeError e then Inl run_until_complete_refused else Inl e
         | Inr v \<Rightarrow> Inr v)
      else run_async_in_new_loop truthy outcome)"

section \<open>BaseAdapter.adapt and the validation of the source\<close>

text \<open>\<^verbatim>\<open>s.startswith(p)\<close>, and with a tuple of prefixes.\<close>

definition startswith :: "string \<Rightarrow> string \<Rightarrow> bool" where
  "startswith s p = (take (length p) s = p)"

definition startswith_any :: "string \<Rightarrow> string list \<Rightarrow> bool" where
  "startswith_any s ps = list_ex (startswith s) ps"

text \<open>
  \<^verbatim>\<open>pathlib.Path(s)\<close> and \<^verbatim>\<open>str(path)\<close> on a POSIX system, as the standard library
  computes them. The constructor keeps of its argument the root (\<^verbatim>\<open>//\<close> for exactly
  two leading slashes, \<^verbatim>\<open>/\<close> for any other number of them, nothing without) and the
  components between slashes that are neither empty nor \<^verbatim>\<open>.\<close>; \<^verbatim>\<open>str\<close> joins them
  with single slashes after the root, and prints the empty path as \<^verbatim>\<open>.\<close>.
\<close>

fun split_slash :: "string \<Rightarrow> string list" where
  "split_slash [] = [[]]"
| "split_slash (c # cs) =
     (case split_slash cs of
        [] \<Rightarrow> (if c = CHR ''/'' then [[], []] else [[c]])
      | l # ls \<Rightarrow> (if c = CHR ''/'' then [] # l # ls else (c # l) # ls))"

fun join_slash :: "string list \<Rightarrow> string" where
  "join_slash [] = []"
| "join_slash [p] = p"
| "join_slash (p # q # ps) = p @ CHR ''/'' # join_slash (q # ps)"

definition posix_root :: "string \<Rightarrow> string" where
  "posix_root s =
     (let n = length (takeWhile (\<lambda>c. c = CHR ''/'') s)
      in if n = 0 then [] else if n = 2 then ''//'' else ''/'')"

definition posix_parts :: "string \<Rightarrow> string list" where
  "posix_parts s =
     filter (\<lambda>x. x \<noteq> [] \<and> x \<noteq> ''.'') (split_slash (dropWhile (\<lambda>c. c = CHR ''/'') s))"

definition posix_str :: "string \<Rightarrow> string" where
  "posix_str s =
     (let t = posix_root s @ join_slash (posix_parts s)
      in if t = [] then ''.'' else t)"

text \<open>A \<^verbatim>\<open>Path\<close> object, known by its string form \<^verbatim>\<open>str(path)\<close>.\<close>

datatype path = PathObj (path_str: string)

definition Path :: "string \<Rightarrow> path" where
  "Path s = PathObj (posix_str s)"

text \<open>
  The argument \<^verbatim>\<open>source\<close>: annotated \<^verbatim>\<open>Union[str, Path]\<close>, and tested with
  \<^verbatim>\<open>isinstance\<close> at run time, so an object of another type is a case of its own.
  \<^item> \<open>SourceStr s\<close> is the string \<open>s\<close>;
  \<^item> \<open>SourcePath s\<close> is the object \<^verbatim>\<open>Path(s)\<close> (every path is one, for its own text);
  \<^item> \<open>SourceOther t r\<close> is any other object, \<open>t\<close> the text of \<^verbatim>\<open>type(source)\<close> and
    \<open>r\<close> the text of \<^verbatim>\<open>str(source)\<close>.
\<close>

datatype source = SourceStr string | SourcePath string | SourceOther string string

text \<open>
  The file system, as the code asks it: \<^verbatim>\<open>path.exists()\<close>. It answers true or false,
  or raises the OSError of the underlying \<^verbatim>\<open>stat\<close> when that is none of the errors it
  takes for ``not there'' (a name that is too long, a directory that may not be
  searched).
\<close>

type_synonym filesystem = "path \<Rightarrow> exc + bool"

text \<open>
  \<^verbatim>\<open>BaseAdapter._validate_source\<close>:
  \<^verbatim>\<open>
  if isinstance(source, str):
      source = Path(source)
  if not isinstance(source, Path):
      raise ValueError(f"Invalid source type: {type(source)}")
  if not source.exists() and not str(source).startswith(('http://', 'https://')):
      raise FileNotFoundError(f"Source file not found: {source}")
  return source
  \<close>
  \<^verbatim>\<open>exists()\<close> is called first; what it raises leaves the method.
\<close>

definition check_exists :: "filesystem \<Rightarrow> path \<Rightarrow> exc + path" where
  "check_exists fs p =
     (case fs p of
        Inl e \<Rightarrow> Inl e
      | Inr there \<Rightarrow>
          if \<not> there \<and> \<not> startswith_any (path_str p) [''http://'', ''https://'']
          then Inl (Exc FileNotFoundError (''Source file not found: '' @ path_str p))
          else Inr p)"

fun validate_source :: "filesystem \<Rightarrow> source \<Rightarrow> exc + path" where
  "validate_source fs (SourceStr s) = check_exists fs (Path s)"
| "validate_source fs (SourcePath s) = check_exists fs (Path s)"
| "validate_source fs (SourceOther t r) = Inl (Exc ValueError (''Invalid source type: '' @ t))"

text \<open>\<^verbatim>\<open>str(source)\<close>.\<close>

fun str_source :: "source \<Rightarrow> string" where
  "str_source (SourceStr s) = s"
| "str_source (SourcePath s) = path_str (Path s)"
| "str_source (SourceOther t r) = r"

text \<open>
  The handler of \<^verbatim>\<open>BaseAdapter.adapt\<close>:
  \<^verbatim>\<open>
  except Exception as e:
      self.logger.error(f"Adaptation failed: {e}", exc_info=True)
      if self.test_mode:
          raise
      return InputAdapterResult(success=False, error=str(e),
                                metadata={"source": str(source)})
  \<close>
  An exception that is no instance of Exception is not matched and leaves
  \<^verbatim>\<open>adapt\<close>. \<open>src_text\<close> is \<^verbatim>\<open>str(source)\<close> for the value of the variable
  \<^verbatim>\<open>source\<close> when the exception is raised: the argument while the validation runs,
  the validated path afterwards. The log record is no part of what \<^verbatim>\<open>adapt\<close> returns
  and is left out.
\<close>

definition adapt_handler :: "bool \<Rightarrow> string \<Rightarrow> exc \<Rightarrow> exc + 'vs py_value" where
  "adapt_handler test_mode src_text e =
     (if isinstance_Exception e then
        (if test_mode then Inl e
         else Inr (AdapterResult
                \<lparr>success = False, video_set = None, error = Some (exc_text e),
                 metadata = [(''source'', src_text)]\<rparr>))
      else Inl e)"

text \<open>
  \<^verbatim>\<open>BaseAdapter.adapt\<close>; \<open>perform\<close> is the abstract method
  \<^verbatim>\<open>_perform_adaptation\<close> of the subclass, awaited to completion.
  \<^verbatim>\<open>
  try:
      source = self._validate_source(source)
      video_set = await self._perform_adaptation(source, **kwargs)
      if self.test_mode:
          return video_set
      else:
          return InputAdapterResult(success=True, video_set=video_set,
                                    metadata={"source": str(source)})
  except Exception as e: ...
  \<close>
\<close>

definition BaseAdapter_adapt ::
  "bool \<Rightarrow> filesystem \<Rightarrow> (path \<Rightarrow> exc + 'vs) \<Rightarrow> source \<Rightarrow> exc + 'vs py_value" where
  "BaseAdapter_adapt test_mode fs perform src =
     (case validate_source fs src of
        Inl e \<Rightarrow> adapt_handler test_mode (str_source src) e
      | Inr p \<Rightarrow>
          (case perform p of
             Inl e \<Rightarrow> adapt_handler test_mode (path_str p) e
           | Inr vs \<Rightarrow>
               if test_mode then Inr (VideoSetValue vs)
               else Inr (AdapterResult
                      \<lparr>success = True, video_set = Some vs, error = None,
                       metadata = [(''source'', path_str p)]\<rparr>)))"

section \<open>The scene model\<close>

text \<open>
  Modelled from the spec: the scene model of section 3, whose classes
  (\<^verbatim>\<open>shared/models.py\<close>) are missing from the sources. The registered scene types are
  those the spec lists; the fields are those with which the fixtures of
  \<^verbatim>\<open>tests/conftest.py\<close> build \<^verbatim>\<open>SceneConfig(scene_id, scene_type, visual_content,
  narration, ...)\<close> and \<^verbatim>\<open>VideoConfig(video_id, title, scenes, ...)\<close>. Voice, durations
  and accent colour play no part in what follows and are left out.
\<close>

datatype scene_kind =
    TitleScene | CommandScene | ListScene | OutroScene
  | QuizScene | LearningObjectivesScene | ExerciseScene | CheckpointScene
  | QuoteScene | CodeComparisonScene | ProblemScene | SolutionScene

datatype content = Text string | Items "string list"

record scene =
  scene_id :: nat
  scene_type :: scene_kind
  visual_content :: "(string \<times> content) list"
  narration :: string

record video =
  video_id :: string
  title :: string
  scenes :: "scene list"

record video_set =
  set_id :: string
  set_name :: string
  videos :: "video list"

section \<open>The document adapter\<close>

text \<open>
  The document adapter (\<^verbatim>\<open>DocumentAdapter\<close>) is missing from the sources, which hold
  its callers only (\<^verbatim>\<open>tests/test_real_integration.py\<close>). The definitions of this
  section follow section 4.1 of the spec: split on section headings; the first heading
  becomes the video title; a synthetic title scene is always prepended and a synthetic
  outro scene always appended; sections containing a fenced code block are classified
  as command scenes (block lines become command lines), sections dominated by bullet
  lines are classified as list scenes, and everything else defaults to list/prose
  summary; a \<^verbatim>\<open>max_scenes\<close> bound truncates or merges sections once exceeded.
  Where the spec leaves a choice, the definition that makes it says so.
\<close>

text \<open>
  Modelled from the spec: white space, for ``empty or whitespace-only input''. The
  spec does not list the characters; here they are the space, the five controls
  \<^verbatim>\<open>\t \n \v \f \r\<close> and the four separators \<^verbatim>\<open>0x1C\<close> to \<^verbatim>\<open>0x1F\<close>.
\<close>

definition is_space :: "char \<Rightarrow> bool" where
  "is_space c =
     (c \<in> set [CHR 0x20, CHR 0x09, CHR 0x0A, CHR 0x0D, CHR 0x0B, CHR 0x0C,
               CHR 0x1C, CHR 0x1D, CHR 0x1E, CHR 0x1F])"

text \<open>Modelled from the spec: \<^verbatim>\<open>s.lstrip()\<close> and \<^verbatim>\<open>s.strip()\<close>, used to read a line.\<close>

definition lstrip :: "string \<Rightarrow> string" where
  "lstrip s = dropWhile is_space s"

definition strip :: "string \<Rightarrow> string" where
  "strip s = rev (dropWhile is_space (rev (dropWhile is_space s)))"

text \<open>Modelled from the spec: the lines of the document, \<^verbatim>\<open>text.split("\n")\<close>.\<close>

fun split_newline :: "string \<Rightarrow> string list" where
  "split_newline [] = [[]]"
| "split_newline (c # cs) =
     (case split_newline cs of
        [] \<Rightarrow> (if c = CHR 0x0A then [[], []] else [[c]])
      | l # ls \<Rightarrow> (if c = CHR 0x0A then [] # l # ls else (c # l) # ls))"

text \<open>
  Modelled from the spec: a section heading. The spec does not say how one is
  recognised; here it is a line that starts with \<^verbatim>\<open>#\<close>, and its text is what follows
  the \<^verbatim>\<open>#\<close> signs.
\<close>

definition is_heading :: "string \<Rightarrow> bool" where
  "is_heading l = startswith l ''#''"

definition heading_text :: "string \<Rightarrow> string" where
  "heading_text l = strip (dropWhile (\<lambda>c. c = CHR ''#'') l)"

text \<open>
  Modelled from the spec: the line that opens or closes a fenced code block, and a
  bullet line (\<^verbatim>\<open>- item\<close> or \<^verbatim>\<open>* item\<close>).
\<close>

definition is_fence :: "string \<Rightarrow> bool" where
  "is_fence l = startswith (lstrip l) ''```''"

definition is_bullet :: "string \<Rightarrow> bool" where
  "is_bullet l = startswith_any (lstrip l) [''- '', ''* '']"

definition bullet_text :: "string \<Rightarrow> string" where
  "bullet_text l = strip (drop 2 (lstrip l))"

definition is_blank :: "string \<Rightarrow> bool" where
  "is_blank l = list_all is_space l"

record doc_section =
  heading :: string
  body :: "string list"

text \<open>
  Modelled from the spec: ``split on section headings''. The lines are read from the
  last one back: the first component holds the lines met since the last heading, which
  become the body of the next heading above them. Lines before the first heading
  belong to no section.
\<close>

fun split_sections :: "string list \<Rightarrow> string list \<times> doc_section list" where
  "split_sections [] = ([], [])"
| "split_sections (l # ls) =
     (case split_sections ls of
        (pending, secs) \<Rightarrow>
          if is_heading l then ([], \<lparr>heading = heading_text l, body = pending\<rparr> # secs)
          else (l # pending, secs))"

definition sections_of :: "string \<Rightarrow> doc_section list" where
  "sections_of text = snd (split_sections (split_newline text))"

text \<open>
  Modelled from the spec: ``block lines become command lines''. The lines inside
  fenced blocks; the fence lines themselves are dropped.
\<close>

fun fenced_lines :: "bool \<Rightarrow> string list \<Rightarrow> string list" where
  "fenced_lines inside [] = []"
| "fenced_lines inside (l # ls) =
     (if is_fence l then fenced_lines (\<not> inside) ls
      else if inside then l # fenced_lines inside ls
      else fenced_lines inside ls)"

text \<open>Modelled from the spec: a section ``containing a fenced code block''.\<close>

definition contains_code_block :: "doc_section \<Rightarrow> bool" where
  "contains_code_block s = list_ex is_fence (body s)"

text \<open>
  Modelled from the spec: the items of a list scene. A section ``dominated by bullet
  lines'' (here: more than half of its lines that are not blank) lists its bullets; any
  other lists its prose lines.
\<close>

definition list_items :: "string list \<Rightarrow> string list" where
  "list_items ls =
     (let bullets = filter is_bullet ls;
          prose = filter (\<lambda>l. \<not> is_blank l) ls
      in if length prose < 2 * length bullets then map bullet_text bullets
         else map strip prose)"

text \<open>
  Modelled from the spec: the classification of a section. With a fenced code block it
  is a command scene; dominated by bullets or not, any other section is a list scene.
  The field names are those of the scene mappings in the tests.
\<close>

definition scene_of_section :: "nat \<times> doc_section \<Rightarrow> scene" where
  "scene_of_section p =
     (case p of
        (i, s) \<Rightarrow>
          if contains_code_block s then
            \<lparr>scene_id = i, scene_type = CommandScene,
             visual_content =
               [(''header'', Text (heading s)), (''commands'', Items (fenced_lines False (body s)))],
             narration = []\<rparr>
          else
            \<lparr>scene_id = i, scene_type = ListScene,
             visual_content =
               [(''header'', Text (heading s)), (''items'', Items (list_items (body s)))],
             narration = []\<rparr>)"

text \<open>
  Modelled from the spec: the settings of the adapter. \<^verbatim>\<open>max_scenes\<close> is the bound of
  the spec; the title of a document without heading and the texts of the outro, on
  which the spec is silent, are settings too.
\<close>

record document_adapter =
  max_scenes :: nat
  default_title :: string
  outro_main :: string
  outro_sub :: string

text \<open>Modelled from the spec: ``the first heading becomes the video title''.\<close>

definition video_title :: "document_adapter \<Rightarrow> doc_section list \<Rightarrow> string" where
  "video_title cfg secs = (case secs of [] \<Rightarrow> default_title cfg | s # _ \<Rightarrow> heading s)"

text \<open>
  Modelled from the spec: the sections that become scenes. Every section is one, the
  section of the first heading too, as long as the bound is not exceeded. Once it is,
  the bound ``truncates or merges''; the spec leaves the merge heuristic open, and the
  model truncates. The bound counts the title and the outro, which are always there, so
  \<open>max_scenes - 2\<close> sections are kept (none when \<open>max_scenes\<close> is below 2).
\<close>

definition content_sections :: "document_adapter \<Rightarrow> string \<Rightarrow> doc_section list" where
  "content_sections cfg text = take (max_scenes cfg - 2) (sections_of text)"

text \<open>Modelled from the spec: the synthetic title scene and the synthetic outro scene.\<close>

definition title_scene :: "string \<Rightarrow> scene" where
  "title_scene t =
     \<lparr>scene_id = 0, scene_type = TitleScene,
      visual_content = [(''title'', Text t), (''subtitle'', Text [])], narration = []\<rparr>"

definition outro_scene :: "document_adapter \<Rightarrow> nat \<Rightarrow> scene" where
  "outro_scene cfg i =
     \<lparr>scene_id = i, scene_type = OutroScene,
      visual_content = [(''main_text'', Text (outro_main cfg)), (''sub_text'', Text (outro_sub cfg))],
      narration = []\<rparr>"

text \<open>
  Modelled from the spec: the scenes of the video. The title scene is always
  prepended and the outro scene always appended; the scenes are numbered in order.
\<close>

definition document_scenes :: "document_adapter \<Rightarrow> string \<Rightarrow> scene list" where
  "document_scenes cfg text =
     (let kept = content_sections cfg text
      in title_scene (video_title cfg (sections_of text))
         # map scene_of_section (enumerate 1 kept)
         @ [outro_scene cfg (Suc (length kept))])"

text \<open>Modelled from the spec: the VideoSet of a document, one video.\<close>

definition document_video_set :: "document_adapter \<Rightarrow> string \<Rightarrow> string \<Rightarrow> video_set" where
  "document_video_set cfg name text =
     \<lparr>set_id = name, set_name = video_title cfg (sections_of text),
      videos =
        [\<lparr>video_id = name, title = video_title cfg (sections_of text),
          scenes = document_scenes cfg text\<rparr>]\<rparr>"

text \<open>
  Modelled from the spec: \<^verbatim>\<open>DocumentAdapter.adapt\<close> on the document \<open>name\<close> with the
  text \<open>text\<close>: the result class of base.py around the video set. No text makes it
  fail.
\<close>

definition document_adapt ::
  "document_adapter \<Rightarrow> string \<Rightarrow> string \<Rightarrow> video_set InputAdapterResult" where
  "document_adapt cfg name text =
     \<lparr>success = True, video_set = Some (document_video_set cfg name text), error = None,
      metadata = [(''source'', name)]\<rparr>"




definition whitespace_only :: "string \<Rightarrow> bool" where
  "whitespace_only text = list_all is_space text"

section \<open>The structured-config adapter\<close>

text \<open>
  The structured-config adapter (\<^verbatim>\<open>YAMLAdapter\<close>) is missing from the sources, which
  hold its callers only. A parsed description is a tree of mappings, lists and scalars.
\<close>

datatype yaml =
    YNull
  | YStr string
  | YInt int
  | YList "yaml list"
  | YMap "(string \<times> yaml) list"

text \<open>
  Modelled from the spec: the errors of an adaptation. Section 4.1 gives the adapter
  the contract \<^verbatim>\<open>adapt(source, options) -> Result<VideoSet, AdaptationError>\<close>; section
  7 names the kinds \<^verbatim>\<open>StructureError\<close> (malformed or incomplete input) and
  \<^verbatim>\<open>SourceNotFound\<close> (missing file or URL); a text that is no description at all is
  the ``generic parse failure'' of section 4.1. A StructureError carries the required
  keys that are missing, which is what makes it readable.
\<close>

datatype adaptation_error =
    StructureError "string list"
  | SourceNotFound string
  | ParseFailure string

text \<open>
  Modelled from the spec: ``the top-level required keys (\<^verbatim>\<open>video\<close>, \<^verbatim>\<open>scenes\<close>)'',
  the entries at the top level of a description (none when it is no mapping), and the
  required keys that a description lacks.
\<close>

definition required_keys :: "string list" where
  "required_keys = [''video'', ''scenes'']"

fun top_level :: "yaml \<Rightarrow> (string \<times> yaml) list" where
  "top_level (YMap kvs) = kvs"
| "top_level _ = []"

definition missing_keys :: "yaml \<Rightarrow> string list" where
  "missing_keys cfg = filter (\<lambda>k. map_of (top_level cfg) k = None) required_keys"

text \<open>
  Modelled from the spec: \<^verbatim>\<open>YAMLAdapter.adapt\<close> on a parsed description: it ``fails
  with StructureError when the top-level required keys are absent''. The conversion of
  a description that has both keys is the parameter \<open>convert\<close>.
\<close>

definition structured_adapt ::
  "(yaml \<Rightarrow> adaptation_error + 'vs) \<Rightarrow> yaml \<Rightarrow> adaptation_error + 'vs" where
  "structured_adapt convert cfg =
     (case missing_keys cfg of
        [] \<Rightarrow> convert cfg
      | k # ks \<Rightarrow> Inl (StructureError (k # ks)))"

text \<open>
  Modelled from the spec: the adapter on a text. \<open>load\<close> is the YAML parser, which
  gives no tree for a text that is not YAML: that is the generic parse failure.
\<close>

definition structured_adapt_text ::
  "(string \<Rightarrow> yaml option) \<Rightarrow> (yaml \<Rightarrow> adaptation_error + 'vs) \<Rightarrow> string
     \<Rightarrow> adaptation_error + 'vs" where
  "structured_adapt_text load convert text =
     (case load text of
        None \<Rightarrow> Inl (ParseFailure text)
      | Some cfg \<Rightarrow> structured_adapt convert cfg)"

section \<open>Concrete inputs\<close>

text \<open>A class whose instances are all true, as a class without \<^verbatim>\<open>__bool__\<close> and \<^verbatim>\<open>__len__\<close> is.\<close>

definition plain_object :: "'vs \<Rightarrow> bool" where
  "plain_object v = True"

text \<open>
  The truth of a container, and of an instance of a class whose \<^verbatim>\<open>__len__\<close> counts what
  it holds: false when empty.
\<close>

definition nonempty :: "'a list \<Rightarrow> bool" where
  "nonempty v = (v \<noteq> [])"

text \<open>
  A file system that holds the one file \<^verbatim>\<open>doc.md\<close>, and whose \<^verbatim>\<open>stat\<close> refuses a
  name of more than 255 characters with the OSError of errno 36.
\<close>

definition one_file :: filesystem where
  "one_file p =
     (if 255 < length (path_str p) then
        Inl (Exc (OtherException ''OSError'')
               (''[Errno 36] File name too long: '' @ [CHR 0x27] @ path_str p @ [CHR 0x27]))
      else Inr (path_str p = ''doc.md''))"

text \<open>An adaptation that is cancelled, one that fails, one that returns.\<close>

definition cancelled :: "path \<Rightarrow> exc + nat" where
  "cancelled p = Inl (Exc (BaseExceptionOnly ''CancelledError'') [])"

definition failing :: "path \<Rightarrow> exc + nat" where
  "failing p = Inl (Exc (OtherException ''LookupError'') ''no title'')"

definition returning :: "path \<Rightarrow> exc + nat" where
  "returning p = Inr 7"

text \<open>The description of the test \<^verbatim>\<open>test_missing_required_fields\<close>: no key \<^verbatim>\<open>video\<close>.\<close>

definition scenes_only :: yaml where
  "scenes_only = YMap [(''scenes'', YList [YMap [(''type'', YStr ''title''), (''title'', YStr ''Test'')]])]"

definition convert_none :: "yaml \<Rightarrow> adaptation_error + nat" where
  "convert_none cfg = Inr 0"

definition plain_adapter :: document_adapter where
  "plain_adapter = \<lparr>max_scenes = 10, default_title = ''Untitled'', outro_main = ''Thank You'',
     outro_sub = ''For Watching''\<rparr>"



section \<open>Notions used by the statements\<close>

text \<open>The path that \<^verbatim>\<open>_validate_source\<close> examines, when the source is a string or a path.\<close>

fun source_path :: "source \<Rightarrow> path option" where
  "source_path (SourceStr s) = Some (Path s)"
| "source_path (SourcePath s) = Some (Path s)"
| "source_path (SourceOther t r) = None"

text \<open>A source that is written as a web address.\<close>

fun names_url :: "source \<Rightarrow> bool" where
  "names_url (SourceStr s) = startswith_any s [''http://'', ''https://'']"
| "names_url (SourcePath s) = startswith_any s [''http://'', ''https://'']"
| "names_url (SourceOther t r) = False"

text \<open>
  The exception raised inside the \<^verbatim>\<open>try\<close> of \<^verbatim>\<open>BaseAdapter.adapt\<close>, by the validation
  or by \<^verbatim>\<open>_perform_adaptation\<close>, if any.
\<close>

definition raised_in_try :: "filesystem \<Rightarrow> (path \<Rightarrow> exc + 'vs) \<Rightarrow> source \<Rightarrow> exc option" where
  "raised_in_try fs perform src =
     (case validate_source fs src of
        Inl e \<Rightarrow> Some e
      | Inr p \<Rightarrow> (case perform p of Inl e \<Rightarrow> Some e | Inr vs \<Rightarrow> None))"

text \<open>Two neighbouring slashes in a text.\<close>

fun has_double_slash :: "string \<Rightarrow> bool" where
  "has_double_slash [] = False"
| "has_double_slash [c] = False"
| "has_double_slash (c # d # r) = ((c = CHR ''/'' \<and> d = CHR ''/'') \<or> has_double_slash (d # r))"



section \<open>The synchronous wrapper returns the VideoSet or raises\<close>

lemma extract_result_ok:
  "success r \<Longrightarrow> video_set r = Some v \<Longrightarrow> truthy v \<Longrightarrow>
   extract_video_set truthy (AdapterResult r) = Inr v"
  by (simp add: extract_video_set_def)

lemma extract_result_failed:
  "\<not> success r \<or> video_set r = None \<or> (\<exists>w. video_set r = Some w \<and> \<not> truthy w) \<Longrightarrow>
   extract_video_set truthy (AdapterResult r)
     = Inl (Exc ValueError (''Adapter failed: '' @ format_optional (error r)))"
  by (auto simp: extract_video_set_def split: option.splits)

lemma extract_direct: "extract_video_set truthy (VideoSetValue v) = Inr v"
  by (simp add: extract_video_set_def)

lemma extract_other:
  "extract_video_set truthy (OtherValue t) = Inl (Exc TypeError (''Unexpected result type: '' @ t))"
  by (simp add: extract_video_set_def)

text \<open>
  The two errors of the extraction are no RuntimeError, so the handler of
  \<^verbatim>\<open>BaseAdapter.parse\<close> lets them pass.
\<close>

lemma extract_raises_no_RuntimeError:
  "extract_video_set truthy x = Inl e \<Longrightarrow> \<not> isinstance_RuntimeError e"
  by (auto simp: extract_video_set_def split: py_value.splits option.splits if_splits)

lemma InputAdapter_parse_returned:
  "InputAdapter_parse truthy running (Inr x) = extract_video_set truthy x"
  by (simp add: InputAdapter_parse_def)

lemma BaseAdapter_parse_returned:
  "BaseAdapter_parse truthy running (Inr x) = extract_video_set truthy x"
proof (cases "extract_video_set truthy x")
  case (Inl e)
  then show ?thesis
    using extract_raises_no_RuntimeError [OF Inl]
    by (simp add: BaseAdapter_parse_def run_async_in_new_loop_def)
next
  case (Inr v)
  then show ?thesis
    by (simp add: BaseAdapter_parse_def run_async_in_new_loop_def)
qed

text \<open>
  When \<^verbatim>\<open>adapt\<close> raises, so does \<^verbatim>\<open>parse\<close>: the exception of \<^verbatim>\<open>adapt\<close>, or, for a
  RuntimeError met while a loop is running, the refusal of the retry.
\<close>

lemma InputAdapter_parse_raised:
  "InputAdapter_parse truthy running (Inl e)
     = Inl (if running \<and> isinstance_RuntimeError e then asyncio_run_refused else e)"
  by (simp add: InputAdapter_parse_def)

lemma BaseAdapter_parse_raised:
  "BaseAdapter_parse truthy running (Inl e)
     = Inl (if running \<and> isinstance_RuntimeError e then run_until_complete_refused else e)"
  by (simp add: BaseAdapter_parse_def run_async_in_new_loop_def)

lemma extract_returns_iff:
  "extract_video_set truthy x = Inr v \<longleftrightarrow>
     x = VideoSetValue v
     \<or> (\<exists>r. x = AdapterResult r \<and> success r \<and> video_set r = Some v \<and> truthy v)"
  by (cases x) (auto simp: extract_video_set_def split: option.splits)

lemma InputAdapter_parse_returns_iff:
  "InputAdapter_parse truthy running outcome = Inr v \<longleftrightarrow>
     outcome = Inr (VideoSetValue v)
     \<or> (\<exists>r. outcome = Inr (AdapterResult r) \<and> success r \<and> video_set r = Some v \<and> truthy v)"
proof (cases outcome)
  case (Inl e)
  then show ?thesis by (simp add: InputAdapter_parse_raised)
next
  case (Inr x)
  then show ?thesis by (simp add: InputAdapter_parse_returned extract_returns_iff)
qed

lemma BaseAdapter_parse_returns_iff:
  "BaseAdapter_parse truthy running outcome = Inr v \<longleftrightarrow>
     outcome = Inr (VideoSetValue v)
     \<or> (\<exists>r. outcome = Inr (AdapterResult r) \<and> success r \<and> video_set r = Some v \<and> truthy v)"
proof (cases outcome)
  case (Inl e)
  then show ?thesis by (simp add: BaseAdapter_parse_raised)
next
  case (Inr x)
  then show ?thesis by (simp add: BaseAdapter_parse_returned extract_returns_iff)
qed

text \<open>
  Claim C9, as stated, fails: the code tests the video set for truth, not against None.
  A result with \<^verbatim>\<open>success\<close> true whose video set is there and empty (an empty
  container, an instance of a class whose \<^verbatim>\<open>__len__\<close> gives 0) is not returned: both
  wrappers raise ValueError.
\<close>

theorem parse_falsy_counterexample:
  "InputAdapter_parse nonempty False
       (Inr (AdapterResult
          \<lparr>success = True, video_set = Some ([] :: nat list), error = None, metadata = []\<rparr>))
     = Inl (Exc ValueError ''Adapter failed: None'')
   \<and> BaseAdapter_parse nonempty False
       (Inr (AdapterResult
          \<lparr>success = True, video_set = Some ([] :: nat list), error = None, metadata = []\<rparr>))
     = Inl (Exc ValueError ''Adapter failed: None'')"
  by (simp add: InputAdapter_parse_returned BaseAdapter_parse_returned extract_video_set_def
      nonempty_def)

text \<open>
  Claim C9, amended. For every call of either \<^verbatim>\<open>parse\<close> wrapper (base.py and
  base_fixed.py), with or without a running event loop: if \<^verbatim>\<open>adapt\<close> returns a result
  with \<^verbatim>\<open>success\<close> true and a video set that is true (there, and not false by its
  \<^verbatim>\<open>__bool__\<close> or \<^verbatim>\<open>__len__\<close>), \<^verbatim>\<open>parse\<close> returns exactly that video set; if
  \<^verbatim>\<open>success\<close> is false or the video set is None or false, \<^verbatim>\<open>parse\<close> raises ValueError
  with the text \<^verbatim>\<open>Adapter failed: \<close> followed by the result's error; a VideoSet
  returned directly is returned unchanged; any other value raises TypeError; and if
  \<^verbatim>\<open>adapt\<close> raises, \<^verbatim>\<open>parse\<close> raises. So \<^verbatim>\<open>parse\<close> returns \<open>v\<close> exactly when \<open>v\<close> is
  the valid video set that \<^verbatim>\<open>adapt\<close> produced, never None, and raises in every other
  case.
\<close>

theorem parse_result_handling:
  "(success r \<and> video_set r = Some v \<and> truthy v \<longrightarrow>
      InputAdapter_parse truthy running (Inr (AdapterResult r)) = Inr v
    \<and> BaseAdapter_parse truthy running (Inr (AdapterResult r)) = Inr v)
   \<and> (\<not> success r \<or> video_set r = None \<or> (\<exists>w. video_set r = Some w \<and> \<not> truthy w) \<longrightarrow>
        InputAdapter_parse truthy running (Inr (AdapterResult r))
          = Inl (Exc ValueError (''Adapter failed: '' @ format_optional (error r)))
      \<and> BaseAdapter_parse truthy running (Inr (AdapterResult r))
          = Inl (Exc ValueError (''Adapter failed: '' @ format_optional (error r))))
   \<and> InputAdapter_parse truthy running (Inr (VideoSetValue v)) = Inr v
   \<and> BaseAdapter_parse truthy running (Inr (VideoSetValue v)) = Inr v
   \<and> InputAdapter_parse truthy running (Inr (OtherValue t))
        = Inl (Exc TypeError (''Unexpected result type: '' @ t))
   \<and> BaseAdapter_parse truthy running (Inr (OtherValue t))
        = Inl (Exc TypeError (''Unexpected result type: '' @ t))
   \<and> InputAdapter_parse truthy running (Inl e)
        = Inl (if running \<and> isinstance_RuntimeError e then asyncio_run_refused else e)
   \<and> BaseAdapter_parse truthy running (Inl e)
        = Inl (if running \<and> isinstance_RuntimeError e then run_until_complete_refused else e)
   \<and> (InputAdapter_parse truthy running outcome = Inr v \<longleftrightarrow>
        outcome = Inr (VideoSetValue v)
        \<or> (\<exists>r. outcome = Inr (AdapterResult r) \<and> success r \<and> video_set r = Some v \<and> truthy v))
   \<and> (BaseAdapter_parse truthy running outcome = Inr v \<longleftrightarrow>
        outcome = Inr (VideoSetValue v)
        \<or> (\<exists>r. outcome = Inr (AdapterResult r) \<and> success r \<and> video_set r = Some v \<and> truthy v))"
  using extract_result_ok [of r v truthy] extract_result_failed [of r truthy]
    extract_direct [of truthy v] extract_other [of truthy t]
    InputAdapter_parse_raised [of truthy running e] BaseAdapter_parse_raised [of truthy running e]
    InputAdapter_parse_returns_iff [of truthy running outcome v]
    BaseAdapter_parse_returns_iff [of truthy running outcome v]
  unfolding InputAdapter_parse_returned BaseAdapter_parse_returned
  by blast

theorem parse_result_handling_witness:
  "InputAdapter_parse nonempty True
       (Inr (AdapterResult \<lparr>success = True, video_set = Some [7::nat], error = None, metadata = []\<rparr>))
     = Inr [7]
   \<and> BaseAdapter_parse nonempty True
       (Inr (AdapterResult \<lparr>success = True, video_set = Some [7::nat], error = None, metadata = []\<rparr>))
     = Inr [7]
   \<and> InputAdapter_parse nonempty False
       (Inr (AdapterResult \<lparr>success = False, video_set = Some [7::nat], error = Some ''no scenes'',
          metadata = []\<rparr>))
     = Inl (Exc ValueError ''Adapter failed: no scenes'')
   \<and> BaseAdapter_parse nonempty False
       (Inr (AdapterResult \<lparr>success = True, video_set = None :: nat list option, error = None,
          metadata = []\<rparr>))
     = Inl (Exc ValueError ''Adapter failed: None'')
   \<and> BaseAdapter_parse nonempty True
       (Inr (AdapterResult \<lparr>success = True, video_set = Some ([] :: nat list), error = Some ''empty'',
          metadata = []\<rparr>))
     = Inl (Exc ValueError ''Adapter failed: empty'')"
  using parse_result_handling [of
        "\<lparr>success = True, video_set = Some [7::nat], error = None, metadata = []\<rparr>" "[7::nat]" nonempty True]
    parse_result_handling [of
        "\<lparr>success = False, video_set = Some [7::nat], error = Some ''no scenes'', metadata = []\<rparr>"
        "[7::nat]" nonempty False]
    parse_result_handling [of
        "\<lparr>success = True, video_set = None :: nat list option, error = None, metadata = []\<rparr>" "[7::nat]" nonempty False]
    parse_result_handling [of
        "\<lparr>success = True, video_set = Some ([]::nat list), error = Some ''empty'', metadata = []\<rparr>"
        "[7::nat]" nonempty True]
  by (simp add: nonempty_def)

section \<open>Paths never print as web addresses\<close>

lemma split_slash_no_slash: "l \<in> set (split_slash s) \<Longrightarrow> CHR ''/'' \<notin> set l"
proof (induction s arbitrary: l)
  case Nil
  then show ?case by simp
next
  case (Cons c cs)
  show ?case
  proof (cases "split_slash cs")
    case Nil
    with Cons.prems show ?thesis by (auto split: if_splits)
  next
    case (Cons a as)
    have "CHR ''/'' \<notin> set a" and "\<And>k. k \<in> set as \<Longrightarrow> CHR ''/'' \<notin> set k"
      using Cons.IH Cons by auto
    with Cons.prems Cons show ?thesis by (auto split: if_splits)
  qed
qed

lemma no_slash_prefix:
  "CHR ''/'' \<notin> set p \<Longrightarrow> q \<noteq> [] \<Longrightarrow> has_double_slash (p @ q) = has_double_slash q"
proof (induction p)
  case Nil
  then show ?case by simp
next
  case (Cons c p)
  then show ?case by (cases "p @ q") auto
qed

lemma no_slash_alone: "CHR ''/'' \<notin> set p \<Longrightarrow> \<not> has_double_slash p"
  by (induction p rule: has_double_slash.induct) auto

lemma join_slash_clean:
  assumes "\<forall>p \<in> set ps. p \<noteq> [] \<and> CHR ''/'' \<notin> set p"
  shows "\<not> has_double_slash (join_slash ps)
         \<and> (ps \<noteq> [] \<longrightarrow> join_slash ps \<noteq> [] \<and> hd (join_slash ps) \<noteq> CHR ''/'')"
  using assms
proof (induction ps rule: join_slash.induct)
  case 1
  then show ?case by simp
next
  case (2 p)
  then show ?case by (cases p) (auto simp: no_slash_alone)
next
  case (3 p q ps)
  then have ih: "\<not> has_double_slash (join_slash (q # ps))" "join_slash (q # ps) \<noteq> []"
    "hd (join_slash (q # ps)) \<noteq> CHR ''/''"
    by auto
  have p: "p \<noteq> []" "CHR ''/'' \<notin> set p" using 3 by auto
  have "\<not> has_double_slash (CHR ''/'' # join_slash (q # ps))"
    using ih by (cases "join_slash (q # ps)") auto
  then have "\<not> has_double_slash (p @ CHR ''/'' # join_slash (q # ps))"
    using p by (simp add: no_slash_prefix)
  moreover have "hd (p @ CHR ''/'' # join_slash (q # ps)) \<noteq> CHR ''/''"
    using p by (cases p) auto
  ultimately show ?case by simp
qed

lemma posix_parts_clean: "\<forall>p \<in> set (posix_parts s). p \<noteq> [] \<and> CHR ''/'' \<notin> set p"
  by (auto simp: posix_parts_def dest: split_slash_no_slash)

lemma startswith_append: "startswith t p \<Longrightarrow> t = p @ drop (length p) t"
  unfolding startswith_def by (metis append_take_drop_id)

lemma url_has_double_slash:
  assumes "startswith_any t [''http://'', ''https://'']"
  shows "has_double_slash t \<and> t \<noteq> [] \<and> hd t = CHR ''h''"
proof -
  from assms consider "startswith t ''http://''" | "startswith t ''https://''"
    by (auto simp: startswith_any_def)
  then show ?thesis
  proof cases
    case 1
    from startswith_append [OF this] obtain r where "t = ''http://'' @ r" ..
    then show ?thesis by simp
  next
    case 2
    from startswith_append [OF this] obtain r where "t = ''https://'' @ r" ..
    then show ?thesis by simp
  qed
qed

lemma posix_root_cases: "posix_root s = [] \<or> posix_root s = ''/'' \<or> posix_root s = ''//''"
  by (simp add: posix_root_def Let_def)

text \<open>
  The constructor \<^verbatim>\<open>Path\<close> joins the components with single slashes, so the string form
  of a path starts with neither \<^verbatim>\<open>http://\<close> nor \<^verbatim>\<open>https://\<close>, whatever the text it was
  built from: the second half of the test in \<^verbatim>\<open>_validate_source\<close> is always true.
\<close>

lemma posix_str_no_url: "\<not> startswith_any (posix_str s) [''http://'', ''https://'']"
proof
  assume a: "startswith_any (posix_str s) [''http://'', ''https://'']"
  note u = url_has_double_slash [OF a]
  let ?j = "join_slash (posix_parts s)"
  have clean: "\<not> has_double_slash ?j"
    using join_slash_clean [OF posix_parts_clean] by blast
  show False
  proof (cases "posix_root s = []")
    case True
    show ?thesis
    proof (cases "?j = []")
      case True
      with \<open>posix_root s = []\<close> have "posix_str s = ''.''" by (simp add: posix_str_def)
      with u show False by simp
    next
      case False
      with True have "posix_str s = ?j" by (simp add: posix_str_def)
      with u clean show False by simp
    qed
  next
    case False
    then have "posix_root s = ''/'' \<or> posix_root s = ''//''" using posix_root_cases by blast
    then have "hd (posix_str s) = CHR ''/''"
      by (auto simp: posix_str_def Let_def)
    with u show False by simp
  qed
qed

lemma split_slash_plain: "CHR ''/'' \<notin> set s \<Longrightarrow> split_slash s = [s]"
  by (induction s) auto

text \<open>A name without slash, neither empty nor \<^verbatim>\<open>.\<close>, is its own path.\<close>

lemma posix_str_plain:
  assumes "CHR ''/'' \<notin> set s" "s \<noteq> []" "s \<noteq> ''.''"
  shows "posix_str s = s"
proof -
  have "takeWhile (\<lambda>c. c = CHR ''/'') s = []" "dropWhile (\<lambda>c. c = CHR ''/'') s = s"
    using assms by (cases s; auto)+
  then show ?thesis
    using assms by (simp add: posix_str_def posix_root_def posix_parts_def split_slash_plain)
qed

section \<open>BaseAdapter.adapt turns exceptions into failed results\<close>

lemma check_exists_cases:
  "(fs p = Inr True \<longrightarrow> check_exists fs p = Inr p)
   \<and> (fs p = Inr False \<longrightarrow>
        check_exists fs p
          = (if startswith_any (path_str p) [''http://'', ''https://''] then Inr p
             else Inl (Exc FileNotFoundError (''Source file not found: '' @ path_str p))))
   \<and> (fs p = Inl e \<longrightarrow> check_exists fs p = Inl e)"
  by (simp add: check_exists_def)

lemma validate_source_cases:
  assumes "source_path src = Some p"
  shows "(fs p = Inr True \<longrightarrow> validate_source fs src = Inr p)
   \<and> (fs p = Inr False \<longrightarrow>
        validate_source fs src
          = Inl (Exc FileNotFoundError (''Source file not found: '' @ path_str p)))
   \<and> (fs p = Inl e \<longrightarrow> validate_source fs src = Inl e)"
proof -
  have "\<not> startswith_any (path_str p) [''http://'', ''https://'']"
    using assms posix_str_no_url by (cases src) (auto simp: Path_def)
  moreover have "validate_source fs src = check_exists fs p"
    using assms by (cases src) auto
  ultimately show ?thesis
    using check_exists_cases [of fs p e] by simp
qed

lemma adapt_caught:
  assumes "raised_in_try fs perform src = Some e" and "isinstance_Exception e"
  shows "\<exists>m. BaseAdapter_adapt False fs perform src
           = Inr (AdapterResult \<lparr>success = False, video_set = None,
                    error = Some (exc_text e), metadata = m\<rparr>)"
  using assms
  by (auto simp: raised_in_try_def BaseAdapter_adapt_def adapt_handler_def split: sum.splits)

lemma adapt_reraised:
  assumes "raised_in_try fs perform src = Some e"
  shows "BaseAdapter_adapt True fs perform src = Inl e"
  using assms
  by (auto simp: raised_in_try_def BaseAdapter_adapt_def adapt_handler_def split: sum.splits)

lemma adapt_total:
  assumes "\<And>e. raised_in_try fs perform src = Some e \<Longrightarrow> isinstance_Exception e"
  shows "\<exists>x. BaseAdapter_adapt False fs perform src = Inr x"
proof (cases "raised_in_try fs perform src")
  case None
  then show ?thesis
    by (auto simp: raised_in_try_def BaseAdapter_adapt_def split: sum.splits)
next
  case (Some e)
  with assms adapt_caught [OF Some] show ?thesis by blast
qed

text \<open>
  An exception outside Exception is matched by no handler: it leaves \<^verbatim>\<open>adapt\<close> in
  either mode.
\<close>

lemma adapt_not_caught:
  assumes "raised_in_try fs perform src = Some e" and "\<not> isinstance_Exception e"
  shows "BaseAdapter_adapt test_mode fs perform src = Inl e"
  using assms
  by (auto simp: raised_in_try_def BaseAdapter_adapt_def adapt_handler_def split: sum.splits)

lemma doc_path: "Path ''doc.md'' = PathObj ''doc.md''"
  by (simp add: Path_def posix_str_plain)

lemma missing_path: "Path ''x.md'' = PathObj ''x.md''"
  by (simp add: Path_def posix_str_plain)

lemma long_path: "Path (replicate 256 (CHR ''a'')) = PathObj (replicate 256 (CHR ''a''))"
proof -
  have "replicate 256 (CHR ''a'') \<noteq> ''.''"
    by (metis length_replicate length_Cons list.size(3) numeral_eq_one_iff One_nat_def
        semiring_norm(85) Suc_eq_plus1 add_0)
  then show ?thesis
    by (simp add: Path_def posix_str_plain)
qed

text \<open>
  The address of a page is taken for a file that is not there: the exemption that
  \<^verbatim>\<open>_validate_source\<close> writes for \<^verbatim>\<open>http://\<close> and \<^verbatim>\<open>https://\<close> meets the string form of
  the path, in which the two slashes have become one.
\<close>

lemma url_source_not_exempt:
  "validate_source one_file (SourceStr ''https://example.com/a'')
     = Inl (Exc FileNotFoundError ''Source file not found: https:/example.com/a'')"
  by (simp add: check_exists_def one_file_def Path_def posix_str_def posix_root_def
      posix_parts_def startswith_any_def startswith_def)

text \<open>
  Claim C10, as stated, fails twice. With \<^verbatim>\<open>test_mode\<close> false, an adaptation that is
  cancelled (asyncio.CancelledError derives from BaseException, not from Exception) is
  not caught by \<^verbatim>\<open>except Exception\<close>, and \<^verbatim>\<open>adapt\<close> propagates it to its caller. And
  for a name of 256 characters, which names no file and no web address,
  \<^verbatim>\<open>_validate_source\<close> raises the OSError of \<^verbatim>\<open>exists()\<close>, not FileNotFoundError.
\<close>

theorem adapt_propagates_counterexample:
  "BaseAdapter_adapt False one_file cancelled (SourceStr ''doc.md'')
     = Inl (Exc (BaseExceptionOnly ''CancelledError'') [])
   \<and> validate_source one_file (SourceStr (replicate 256 (CHR ''a'')))
     = Inl (Exc (OtherException ''OSError'')
              (''[Errno 36] File name too long: '' @ [CHR 0x27] @ replicate 256 (CHR ''a'')
               @ [CHR 0x27]))"
  by (simp add: BaseAdapter_adapt_def adapt_handler_def one_file_def cancelled_def
      check_exists_def doc_path long_path)

text \<open>
  Claim C10, amended. When \<^verbatim>\<open>test_mode\<close> is false, every exception that is an
  instance of Exception, raised by the validation of the source or by
  \<^verbatim>\<open>_perform_adaptation\<close>, is caught and returned as an InputAdapterResult with
  \<^verbatim>\<open>success\<close> false and the exception's text as the error; so when nothing but
  instances of Exception is raised, \<^verbatim>\<open>adapt\<close> returns and propagates nothing. When
  \<^verbatim>\<open>test_mode\<close> is true, the same exception propagates. And for a source that is a
  string or a path and is not written as a web address, \<^verbatim>\<open>_validate_source\<close> returns
  the path when \<^verbatim>\<open>exists()\<close> answers true, raises FileNotFoundError when it answers
  false, and raises the error of \<^verbatim>\<open>exists()\<close> when that call raises. (What becomes of
  a web address is left out.)
\<close>

theorem adapt_converts_exceptions:
  "(raised_in_try fs perform src = Some e \<and> isinstance_Exception e \<longrightarrow>
      (\<exists>m. BaseAdapter_adapt False fs perform src
             = Inr (AdapterResult \<lparr>success = False, video_set = None,
                      error = Some (exc_text e), metadata = m\<rparr>))
      \<and> BaseAdapter_adapt True fs perform src = Inl e)
   \<and> ((\<forall>e'. raised_in_try fs perform src = Some e' \<longrightarrow> isinstance_Exception e') \<longrightarrow>
        (\<exists>x. BaseAdapter_adapt False fs perform src = Inr x))
   \<and> (source_path src = Some p \<and> \<not> names_url src \<longrightarrow>
        (fs p = Inr True \<longrightarrow> validate_source fs src = Inr p)
      \<and> (fs p = Inr False \<longrightarrow>
           validate_source fs src
             = Inl (Exc FileNotFoundError (''Source file not found: '' @ path_str p)))
      \<and> (fs p = Inl e \<longrightarrow> validate_source fs src = Inl e))"
  using adapt_caught [of fs perform src e] adapt_reraised [of fs perform src e]
    adapt_total [of fs perform src] validate_source_cases [of src p fs e]
  by blast

lemma failing_raised:
  "raised_in_try one_file failing (SourceStr ''doc.md'')
     = Some (Exc (OtherException ''LookupError'') ''no title'')"
  by (simp add: raised_in_try_def one_file_def failing_def check_exists_def doc_path)

lemma missing_file_raised:
  "raised_in_try one_file returning (SourceStr ''x.md'')
     = Some (Exc FileNotFoundError ''Source file not found: x.md'')"
  by (simp add: raised_in_try_def one_file_def check_exists_def startswith_any_def
      startswith_def missing_path)

lemma long_name_facts:
  "source_path (SourceStr (replicate 256 (CHR ''a''))) = Some (PathObj (replicate 256 (CHR ''a'')))
   \<and> \<not> names_url (SourceStr (replicate 256 (CHR ''a'')))
   \<and> one_file (PathObj (replicate 256 (CHR ''a'')))
       = Inl (Exc (OtherException ''OSError'')
                (''[Errno 36] File name too long: '' @ [CHR 0x27] @ replicate 256 (CHR ''a'')
                 @ [CHR 0x27]))"
proof -
  have "\<not> startswith_any (replicate 256 (CHR ''a'')) [''http://'', ''https://'']"
  proof
    assume "startswith_any (replicate 256 (CHR ''a'')) [''http://'', ''https://'']"
    then have "hd (replicate 256 (CHR ''a'')) = CHR ''h''"
      using url_has_double_slash by blast
    then show False by simp
  qed
  then show ?thesis
    by (simp add: long_path one_file_def)
qed

theorem adapt_converts_exceptions_witness:
  "(\<exists>m. BaseAdapter_adapt False one_file failing (SourceStr ''doc.md'')
          = Inr (AdapterResult \<lparr>success = False, video_set = None, error = Some ''no title'',
                   metadata = m\<rparr>))
   \<and> BaseAdapter_adapt True one_file failing (SourceStr ''doc.md'')
       = Inl (Exc (OtherException ''LookupError'') ''no title'')
   \<and> (\<exists>x. BaseAdapter_adapt False one_file failing (SourceStr ''doc.md'') = Inr x)
   \<and> (\<exists>m. BaseAdapter_adapt False one_file returning (SourceStr ''x.md'')
          = Inr (AdapterResult \<lparr>success = False, video_set = None,
                   error = Some ''Source file not found: x.md'', metadata = m\<rparr>))
   \<and> validate_source one_file (SourcePath ''doc.md'') = Inr (PathObj ''doc.md'')
   \<and> validate_source one_file (SourceStr ''x.md'')
       = Inl (Exc FileNotFoundError ''Source file not found: x.md'')
   \<and> (\<exists>e. validate_source one_file (SourceStr (replicate 256 (CHR ''a''))) = Inl e
        \<and> exc_cls e = OtherException ''OSError'')"
proof -
  have d: "source_path (SourcePath ''doc.md'') = Some (PathObj ''doc.md'')
             \<and> \<not> names_url (SourcePath ''doc.md'')
             \<and> one_file (PathObj ''doc.md'') = Inr True"
    by (simp add: doc_path one_file_def startswith_any_def startswith_def)
  have x: "source_path (SourceStr ''x.md'') = Some (PathObj ''x.md'')
             \<and> \<not> names_url (SourceStr ''x.md'')
             \<and> one_file (PathObj ''x.md'') = Inr False"
    by (simp add: missing_path one_file_def startswith_any_def startswith_def)
  show ?thesis
    using adapt_converts_exceptions [of one_file failing "SourceStr ''doc.md''"
        "Exc (OtherException ''LookupError'') ''no title''" "PathObj ''doc.md''"]
      adapt_converts_exceptions [of one_file returning "SourceStr ''x.md''"
        "Exc FileNotFoundError ''Source file not found: x.md''" "PathObj ''x.md''"]
      adapt_converts_exceptions [of one_file returning "SourcePath ''doc.md''"
        "Exc FileNotFoundError ''Source file not found: x.md''" "PathObj ''doc.md''"]
      adapt_converts_exceptions [of one_file returning "SourceStr (replicate 256 (CHR ''a''))"
        "Exc (OtherException ''OSError'')
           (''[Errno 36] File name too long: '' @ [CHR 0x27] @ replicate 256 (CHR ''a'')
            @ [CHR 0x27])"
        "PathObj (replicate 256 (CHR ''a''))"]
      d x long_name_facts
    by (simp add: failing_raised missing_file_raised)
qed

section \<open>The document adapter: title, sections, outro\<close>

lemma split_newline_chars: "l \<in> set (split_newline s) \<Longrightarrow> set l \<subseteq> set s"
proof (induction s arbitrary: l)
  case Nil
  then show ?case by simp
next
  case (Cons c cs)
  show ?case
  proof (cases "split_newline cs")
    case Nil
    with Cons.prems show ?thesis by (auto split: if_splits)
  next
    case (Cons a as)
    have "set a \<subseteq> set cs" and "\<And>k. k \<in> set as \<Longrightarrow> set k \<subseteq> set cs"
      using Cons.IH Cons by auto
    with Cons.prems Cons show ?thesis by (auto split: if_splits)
  qed
qed

lemma no_heading_no_section:
  "\<forall>l \<in> set ls. \<not> is_heading l \<Longrightarrow> snd (split_sections ls) = []"
  by (induction ls) (auto split: prod.splits)

lemma heading_has_hash: "is_heading l \<Longrightarrow> CHR ''#'' \<in> set l"
  by (cases l) (simp_all add: is_heading_def startswith_def)

lemma hash_not_space: "\<not> is_space (CHR ''#'')"
  by (simp add: is_space_def)

lemma whitespace_no_sections:
  assumes "whitespace_only doc"
  shows "sections_of doc = []"
proof -
  have "\<not> is_heading l" if "l \<in> set (split_newline doc)" for l
  proof
    assume "is_heading l"
    then have "CHR ''#'' \<in> set doc"
      using heading_has_hash split_newline_chars [OF that] by blast
    with assms hash_not_space show False
      by (auto simp: whitespace_only_def list_all_iff)
  qed
  then show ?thesis
    by (simp add: sections_of_def no_heading_no_section)
qed

lemma document_scenes_no_sections:
  "sections_of doc = [] \<Longrightarrow>
   document_scenes cfg doc = [title_scene (default_title cfg), outro_scene cfg 1]"
  by (simp add: document_scenes_def content_sections_def video_title_def enumerate_eq_zip)

text \<open>
  Claim C6. For every empty or whitespace-only document, whatever the settings of the
  adapter, the adaptation succeeds and returns a VideoSet with a single video of exactly
  two scenes: the title scene, then the outro scene.
\<close>

theorem empty_document_title_and_outro:
  "whitespace_only doc \<longrightarrow>
     success (document_adapt cfg name doc)
   \<and> (\<exists>vs v. video_set (document_adapt cfg name doc) = Some vs \<and> videos vs = [v]
        \<and> map scene_type (scenes v) = [TitleScene, OutroScene])"
  using document_scenes_no_sections [OF whitespace_no_sections, of doc cfg]
  by (simp add: document_adapt_def document_video_set_def title_scene_def outro_scene_def)

theorem empty_document_title_and_outro_witness:
  "whitespace_only [CHR 0x20, CHR 0x0A, CHR 0x0A, CHR 0x09, CHR 0x20]
   \<and> success (document_adapt plain_adapter ''empty.md'' [CHR 0x20, CHR 0x0A, CHR 0x0A, CHR 0x09, CHR 0x20])
   \<and> (\<exists>vs v. video_set (document_adapt plain_adapter ''empty.md''
                  [CHR 0x20, CHR 0x0A, CHR 0x0A, CHR 0x09, CHR 0x20]) = Some vs
        \<and> videos vs = [v]
        \<and> map scene_type (scenes v) = [TitleScene, OutroScene])"
proof -
  have w: "whitespace_only [CHR 0x20, CHR 0x0A, CHR 0x0A, CHR 0x09, CHR 0x20]"
    by (simp add: whitespace_only_def is_space_def)
  show ?thesis
    using w empty_document_title_and_outro
      [of "[CHR 0x20, CHR 0x0A, CHR 0x0A, CHR 0x09, CHR 0x20]" plain_adapter "''empty.md''"]
    by blast
qed

















section \<open>The structured-config adapter: a missing top-level key\<close>

lemma missing_keys_set:
  "set (missing_keys cfg) = {k \<in> set required_keys. map_of (top_level cfg) k = None}"
  by (auto simp: missing_keys_def)

lemma structured_adapt_missing:
  "missing_keys cfg \<noteq> [] \<Longrightarrow> structured_adapt convert cfg = Inl (StructureError (missing_keys cfg))"
  by (cases "missing_keys cfg") (simp_all add: structured_adapt_def)

lemma structured_adapt_complete:
  "missing_keys cfg = [] \<Longrightarrow> structured_adapt convert cfg = convert cfg"
  by (simp add: structured_adapt_def)

text \<open>
  Claim C5. When the structured-config adapter is given a description in which the
  top-level key \<^verbatim>\<open>video\<close> or the top-level key \<^verbatim>\<open>scenes\<close> is absent, the adaptation
  fails with a StructureError, which names the required keys that are missing (exactly
  those that are absent); the conversion of the scenes is not reached, and the error
  is neither the generic parse failure nor another kind. The same holds when the
  description is read from a text.
\<close>

theorem missing_key_is_structure_error:
  "map_of kvs ''video'' = None \<or> map_of kvs ''scenes'' = None \<longrightarrow>
     structured_adapt convert (YMap kvs) = Inl (StructureError (missing_keys (YMap kvs)))
   \<and> missing_keys (YMap kvs) \<noteq> []
   \<and> set (missing_keys (YMap kvs)) = {k \<in> {''video'', ''scenes''}. map_of kvs k = None}
   \<and> (\<forall>m. structured_adapt convert (YMap kvs) \<noteq> Inl (ParseFailure m))
   \<and> (\<forall>m. structured_adapt convert (YMap kvs) \<noteq> Inl (SourceNotFound m))
   \<and> (load doc = Some (YMap kvs) \<longrightarrow>
        structured_adapt_text load convert doc = Inl (StructureError (missing_keys (YMap kvs))))"
proof
  assume a: "map_of kvs ''video'' = None \<or> map_of kvs ''scenes'' = None"
  have s: "set (missing_keys (YMap kvs)) = {k \<in> {''video'', ''scenes''}. map_of kvs k = None}"
    using missing_keys_set [of "YMap kvs"] by (simp add: required_keys_def)
  from a obtain k where "k \<in> {''video'', ''scenes''}" and "map_of kvs k = None"
    by blast
  with s have "k \<in> set (missing_keys (YMap kvs))"
    by blast
  then have n: "missing_keys (YMap kvs) \<noteq> []"
    by auto
  note r = structured_adapt_missing [OF n, of convert]
  show "structured_adapt convert (YMap kvs) = Inl (StructureError (missing_keys (YMap kvs)))
   \<and> missing_keys (YMap kvs) \<noteq> []
   \<and> set (missing_keys (YMap kvs)) = {k \<in> {''video'', ''scenes''}. map_of kvs k = None}
   \<and> (\<forall>m. structured_adapt convert (YMap kvs) \<noteq> Inl (ParseFailure m))
   \<and> (\<forall>m. structured_adapt convert (YMap kvs) \<noteq> Inl (SourceNotFound m))
   \<and> (load doc = Some (YMap kvs) \<longrightarrow>
        structured_adapt_text load convert doc = Inl (StructureError (missing_keys (YMap kvs))))"
    using r n s by (simp add: structured_adapt_text_def)
qed

theorem missing_key_is_structure_error_witness:
  "map_of [(''scenes'', YList [YMap [(''type'', YStr ''title''), (''title'', YStr ''Test'')]])] ''video''
     = None
   \<and> structured_adapt convert_none scenes_only = Inl (StructureError [''video''])"
proof -
  have h: "map_of [(''scenes'', YList [YMap [(''type'', YStr ''title''), (''title'', YStr ''Test'')]])]
             ''video'' = None"
    by simp
  have k: "missing_keys scenes_only = [''video'']"
    by (simp add: missing_keys_def required_keys_def scenes_only_def)
  show ?thesis
    using h k missing_key_is_structure_error
      [of "[(''scenes'', YList [YMap [(''type'', YStr ''title''), (''title'', YStr ''Test'')]])]"
          convert_none]
    by (simp add: scenes_only_def)
qed

end
